theory Spec2Isabelle
  imports Complex_Main "HOL-Library.Multiset"
begin

section \<open>JavaScript values of the inspection server\<close>

text \<open>
  The server modelled here is the version of \<^verbatim>\<open>server.ts\<close> that keeps the map
  \<^verbatim>\<open>recentSubmissions\<close> and builds its clients lazily (\<^verbatim>\<open>getDbClient\<close>,
  \<^verbatim>\<open>getDriveService\<close>, \<^verbatim>\<open>getSheetsService\<close>), with its handlers for
  \<^verbatim>\<open>POST /api/upload-inspection\<close> and \<^verbatim>\<open>GET /api/dashboard-stats\<close>.

  A multipart text field, a query parameter or an environment variable is a string, or
  \<^verbatim>\<open>undefined\<close> when it is absent. The empty string is the only falsy string.
\<close>

type_synonym field = "string option"

definition truthy :: "field \<Rightarrow> bool" where
  "truthy v = (case v of None \<Rightarrow> False | Some s \<Rightarrow> s \<noteq> [])"

text \<open>Interpolation in a template literal: \<^verbatim>\<open>`${v}`\<close>.\<close>

definition str :: "field \<Rightarrow> string" where
  "str v = (case v of None \<Rightarrow> ''undefined'' | Some s \<Rightarrow> s)"

text \<open>The defaulting idiom \<^verbatim>\<open>v || d\<close> with a string default.\<close>

definition orElse :: "field \<Rightarrow> string \<Rightarrow> string" where
  "orElse v d = (case v of None \<Rightarrow> d | Some s \<Rightarrow> if s = [] then d else s)"

text \<open>
  \<^verbatim>\<open>String.prototype.trim\<close>, on the ASCII white space characters (the strings are byte
  strings here; the Unicode space characters that JavaScript also strips are not
  recognised).
\<close>

definition isSpace :: "char \<Rightarrow> bool" where
  "isSpace c = (c \<in> set [CHR '' '', CHR 0x09, CHR 0x0A, CHR 0x0B, CHR 0x0C, CHR 0x0D])"

definition trim :: "string \<Rightarrow> string" where
  "trim s = rev (dropWhile isSpace (rev (dropWhile isSpace s)))"

definition quoted :: "string \<Rightarrow> string" where
  "quoted s = CHR 0x27 # s @ [CHR 0x27]"

text \<open>A thrown \<^verbatim>\<open>Error\<close>, with its \<^verbatim>\<open>message\<close>.\<close>

datatype error = Error (message: string)

section \<open>Configuration, process state and the outside world\<close>

text \<open>The environment variables that \<^verbatim>\<open>server.ts\<close> reads through \<^verbatim>\<open>process.env\<close>.\<close>

record config =
  DATABASE_URL :: field
  GOOGLE_REFRESH_TOKEN :: field
  GOOGLE_DRIVE_SERVICE_ACCOUNT_JSON :: field
  GOOGLE_DRIVE_PARENT_FOLDER_ID :: field
  GOOGLE_SHEET_ID :: field

text \<open>
  The module-level variables of \<^verbatim>\<open>server.ts\<close>: the three lazily built clients
  (\<open>False\<close> is \<^verbatim>\<open>null\<close>) and the map \<^verbatim>\<open>recentSubmissions\<close> from submission key to the
  epoch milliseconds of the last submission that passed the deduplication check.
\<close>

record server =
  dbClient :: bool
  drive :: bool
  sheets :: bool
  recentSubmissions :: "string \<rightharpoonup> int"

definition initial :: server where
  "initial = \<lparr>dbClient = False, drive = False, sheets = False, recentSubmissions = Map.empty\<rparr>"

text \<open>The text fields of a submission and its uploaded files; \<^verbatim>\<open>req.files\<close> is
  undefined (\<open>None\<close>) when the request is not multipart.\<close>

record body =
  employeeId :: field
  substationName :: field
  lat :: field
  lng :: field
  timestamp :: field

record multerFile =
  originalname :: string
  mimetype :: string
  buffer :: string

record request =
  body :: body
  files :: "multerFile list option"

text \<open>A row of the table \<^verbatim>\<open>inspection_logs\<close>. A timestamp is a calendar date and the
  milliseconds of its day; timestamps are ordered lexicographically.\<close>

record pgTimestamp =
  ts_year :: int
  ts_month :: int
  ts_day :: int
  ts_millis :: int

record logrow =
  row_id :: int
  employee_id :: string
  substation_name :: string
  timestamp :: pgTimestamp
  gps_lat :: "real option"
  gps_lng :: "real option"
  folder_id :: field
  status :: string

text \<open>
  What the outside world answers while one request is handled: the clock, the outcome of
  the constructors of third-party clients, the strings that locale formatting of the
  submission date produces, the replies of the storage service to the two folder look-ups,
  the two folder creations and the upload of the i-th file, the replies of the relational
  insert and of the spreadsheet append, and for reads the relational store: whether it
  answers, the rows of its table in insertion order, and how it reads a text parameter
  as a number (\<open>None\<close> for a text it rejects).
  \<open>Inl e\<close> and \<open>Some e\<close> stand for a call that throws \<open>e\<close>.
\<close>

record world =
  now :: int
  clientCtor :: "error option"
  credentials :: bool
  dateStr :: string
  formattedDate :: string
  formattedTime :: string
  listMain :: "error + string list option"
  createMain :: "error + string"
  listDaily :: "error + string list option"
  createDaily :: "error + string"
  uploadReply :: "nat \<Rightarrow> error option"
  insertReply :: "error option"
  appendReply :: "error option"
  databaseUp :: bool
  inspection_logs :: "logrow list"
  numeric :: "string \<Rightarrow> real option"

text \<open>The calls a handler makes to the outside, in the order it makes them. A call
  that throws is in the trace too: it was attempted.\<close>

datatype call =
    FilesList string
  | FolderCreate field string
  | FileCreate string string string
  | Insert "field list"
  | Append string "string list"
  | ConsoleError string "error option"

datatype jsonv = JBool bool | JNum int | JStr string | JRows "logrow list"

record response =
  status :: nat
  payload :: "(string \<times> jsonv) list"

definition json :: "(string \<times> jsonv) list \<Rightarrow> response" where
  "json obj = \<lparr>status = 200, payload = obj\<rparr>"

definition json500 :: "(string \<times> jsonv) list \<Rightarrow> response" where
  "json500 obj = \<lparr>status = 500, payload = obj\<rparr>"

section \<open>Lazily built clients\<close>

definition getDbClient :: "config \<Rightarrow> world \<Rightarrow> server \<Rightarrow> bool \<times> server" where
  "getDbClient cfg w s =
     (if dbClient s then (True, s)
      else if \<not> truthy (DATABASE_URL cfg) then (False, s)
      else (case clientCtor w of
              None \<Rightarrow> (True, s\<lparr>dbClient := True\<rparr>)
            | Some e \<Rightarrow> (False, s)))"

text \<open>\<^verbatim>\<open>initDb\<close>, as far as the process state goes (its connect and create-table calls
  are caught when they fail).\<close>

definition initDb :: "config \<Rightarrow> world \<Rightarrow> server \<Rightarrow> server" where
  "initDb cfg w s = snd (getDbClient cfg w s)"

text \<open>\<^verbatim>\<open>getGoogleAuth\<close> returns a client (\<open>True\<close>) or \<^verbatim>\<open>null\<close>: the refresh token has
  priority, then the service account, whose JSON may fail to parse.\<close>

definition getGoogleAuth :: "config \<Rightarrow> world \<Rightarrow> bool" where
  "getGoogleAuth cfg w =
     (if truthy (GOOGLE_REFRESH_TOKEN cfg) then True
      else if \<not> truthy (GOOGLE_DRIVE_SERVICE_ACCOUNT_JSON cfg) then False
      else credentials w)"

definition getDriveService :: "config \<Rightarrow> world \<Rightarrow> server \<Rightarrow> bool \<times> server" where
  "getDriveService cfg w s =
     (if drive s then (True, s)
      else if \<not> getGoogleAuth cfg w then (False, s)
      else (True, s\<lparr>drive := True\<rparr>))"

definition getSheetsService :: "config \<Rightarrow> world \<Rightarrow> server \<Rightarrow> bool \<times> server" where
  "getSheetsService cfg w s =
     (if sheets s then (True, s)
      else if \<not> getGoogleAuth cfg w then (False, s)
      else (True, s\<lparr>sheets := True\<rparr>))"

section \<open>POST /api/upload-inspection\<close>

text \<open>The key of the deduplication map: \<^verbatim>\<open>`${employeeId}-${substationName}`\<close>.\<close>

definition submissionKey :: "request \<Rightarrow> string" where
  "submissionKey req = str (employeeId (body req)) @ ''-'' @ str (substationName (body req))"

text \<open>The deduplication check: the key has an entry and less than 10 seconds have
  passed since it.\<close>

definition isDuplicate :: "server \<Rightarrow> string \<Rightarrow> int \<Rightarrow> bool" where
  "isDuplicate s key t =
     (case recentSubmissions s key of
        None \<Rightarrow> False
      | Some lastTime \<Rightarrow> t - lastTime < 10000)"

definition duplicateIgnored :: response where
  "duplicateIgnored =
     json [(''success'', JBool True), (''message'', JStr ''Duplicate request ignored'')]"

definition folderQuery :: "string \<Rightarrow> string \<Rightarrow> string" where
  "folderQuery name parent =
     ''name = '' @ quoted name @ '' and mimeType = '' @
     quoted ''application/vnd.google-apps.folder'' @ '' and '' @ quoted parent @
     '' in parents and trashed = false''"

text \<open>
  Find or create a folder, as the handler does twice (for the substation and for the
  day): list the folders of that name under the parent and take the first, or create
  one. The list reply is \<open>None\<close> when it has no \<^verbatim>\<open>files\<close>.
\<close>

definition resolveFolder ::
  "(error + string list option) \<Rightarrow> (error + string) \<Rightarrow> string \<Rightarrow> field \<Rightarrow> string
     \<Rightarrow> call list \<times> (error + string)" where
  "resolveFolder listReply createReply qname name parent =
     (case listReply of
        Inl e \<Rightarrow> ([FilesList (folderQuery qname parent)], Inl e)
      | Inr found \<Rightarrow>
          (case found of
             Some (fid # rest) \<Rightarrow> ([FilesList (folderQuery qname parent)], Inr fid)
           | _ \<Rightarrow> ([FilesList (folderQuery qname parent), FolderCreate name parent],
                   createReply)))"

text \<open>The upload loop: the files in order, stopping at the first upload that throws.\<close>

fun uploadFiles :: "(nat \<Rightarrow> error option) \<Rightarrow> string \<Rightarrow> nat \<Rightarrow> multerFile list
    \<Rightarrow> call list \<times> error option" where
  "uploadFiles reply folder i [] = ([], None)"
| "uploadFiles reply folder i (f # fs) =
     (case reply i of
        Some e \<Rightarrow> ([FileCreate (originalname f) (mimetype f) folder], Some e)
      | None \<Rightarrow>
          (case uploadFiles reply folder (Suc i) fs of
             (cs, r) \<Rightarrow> (FileCreate (originalname f) (mimetype f) folder # cs, r)))"

text \<open>Steps 1 to 3 of the handler's \<^verbatim>\<open>try\<close> block: the two folders, then the files.
  The result is the identifier of the daily folder, or the error thrown; iterating over
  undefined files throws a \<^verbatim>\<open>TypeError\<close>.\<close>

definition storeEvidence :: "config \<Rightarrow> world \<Rightarrow> request \<Rightarrow> call list \<times> (error + string)" where
  "storeEvidence cfg w req =
     (let name = substationName (body req);
          parentFolderId =
            orElse (GOOGLE_DRIVE_PARENT_FOLDER_ID cfg) ''1IzXUWJfucyb47Dr32QSVIxBKmoMrWF6J''
      in case resolveFolder (listMain w) (createMain w) (str name) name parentFolderId of
           (c1, Inl e) \<Rightarrow> (c1, Inl e)
         | (c1, Inr mainFolderId) \<Rightarrow>
             (let dailyFolderName = str name @ ''_'' @ dateStr w
              in case resolveFolder (listDaily w) (createDaily w)
                        dailyFolderName (Some dailyFolderName) mainFolderId of
                   (c2, Inl e) \<Rightarrow> (c1 @ c2, Inl e)
                 | (c2, Inr dailyFolderId) \<Rightarrow>
                     (case files req of
                        None \<Rightarrow> (c1 @ c2, Inl (Error ''files is not iterable''))
                      | Some fs \<Rightarrow>
                          (case uploadFiles (uploadReply w) dailyFolderId 0 fs of
                             (c3, Some e) \<Rightarrow> (c1 @ c2 @ c3, Inl e)
                           | (c3, None) \<Rightarrow> (c1 @ c2 @ c3, Inr dailyFolderId)))))"

text \<open>Step 3 (database): the insert is attempted when there is a client; an insert
  that throws is logged and nothing else.\<close>

definition logToDatabase ::
  "config \<Rightarrow> world \<Rightarrow> body \<Rightarrow> string \<Rightarrow> server \<Rightarrow> call list \<times> server" where
  "logToDatabase cfg w b dailyFolderId s =
     (case getDbClient cfg w s of
        (False, s') \<Rightarrow> ([], s')
      | (True, s') \<Rightarrow>
          (Insert [Some (orElse (employeeId b) ''Unknown''), substationName b, lat b, lng b,
                   Some dailyFolderId]
           # (case insertReply w of
                None \<Rightarrow> []
              | Some dbErr \<Rightarrow> [ConsoleError ''DB Log failed:'' (Some dbErr)]),
           s'))"

text \<open>The Thai sentinel for a missing value, in UTF-8.\<close>

definition notSpecified :: string where
  "notSpecified =
     [CHR 0xE0, CHR 0xB9, CHR 0x84, CHR 0xE0, CHR 0xB8, CHR 0xA1, CHR 0xE0, CHR 0xB9, CHR 0x88,
      CHR 0xE0, CHR 0xB8, CHR 0xA3, CHR 0xE0, CHR 0xB8, CHR 0xB0, CHR 0xE0, CHR 0xB8, CHR 0x9A,
      CHR 0xE0, CHR 0xB8, CHR 0xB8]"

definition rowData :: "world \<Rightarrow> body \<Rightarrow> string \<Rightarrow> string list" where
  "rowData w b dailyFolderId =
     [formattedDate w @ '' '' @ formattedTime w,
      (if truthy (employeeId b) \<and> trim (str (employeeId b)) \<noteq> []
       then trim (str (employeeId b)) else notSpecified),
      orElse (substationName b) notSpecified,
      orElse (lat b) ''0'',
      orElse (lng b) ''0'',
      ''https://drive.google.com/drive/folders/'' @ dailyFolderId,
      ''Completed'']"

text \<open>Step 4 (spreadsheet): the append is attempted when there is a client; an append
  that throws is logged and nothing else.\<close>

definition logToSheets ::
  "config \<Rightarrow> world \<Rightarrow> body \<Rightarrow> string \<Rightarrow> server \<Rightarrow> call list \<times> server" where
  "logToSheets cfg w b dailyFolderId s =
     (case getSheetsService cfg w s of
        (sheetsService, s') \<Rightarrow>
          (let sheetId = orElse (GOOGLE_SHEET_ID cfg) ''1WpvuQnhXzufiBmSRSaEnkRFs9BJf5H4fIWZ0xoYC8iw''
           in if sheetsService \<and> sheetId \<noteq> []
              then (Append sheetId (rowData w b dailyFolderId)
                    # (case appendReply w of
                         None \<Rightarrow> []
                       | Some sheetErr \<Rightarrow>
                           [ConsoleError ''Failed to log to Google Sheets:'' (Some sheetErr)]),
                    s')
              else ([], s')))"

text \<open>The handler's \<^verbatim>\<open>try\<close> block with its \<^verbatim>\<open>catch\<close>.\<close>

definition processSubmission ::
  "config \<Rightarrow> world \<Rightarrow> request \<Rightarrow> server \<Rightarrow> response \<times> server \<times> call list" where
  "processSubmission cfg w req s =
     (case storeEvidence cfg w req of
        (cs, Inl e) \<Rightarrow>
          (json500 [(''error'', JStr (message e))], s,
           cs @ [ConsoleError ''Upload error:'' (Some e)])
      | (cs, Inr dailyFolderId) \<Rightarrow>
          (case logToDatabase cfg w (body req) dailyFolderId s of
             (cdb, s1) \<Rightarrow>
               (case logToSheets cfg w (body req) dailyFolderId s1 of
                  (csh, s2) \<Rightarrow>
                    (json [(''success'', JBool True), (''folderId'', JStr dailyFolderId)], s2,
                     cs @ cdb @ csh))))"

text \<open>
  The handler: the response, the process state it leaves and the calls it made. The
  deduplication check and the update of the map come first, with no suspension between
  them, and nothing later in the handler touches the map, so a request is one step on
  the map however the handlers of concurrent requests interleave at their suspensions.
\<close>

definition uploadInspection ::
  "config \<Rightarrow> world \<Rightarrow> request \<Rightarrow> server \<Rightarrow> response \<times> server \<times> call list" where
  "uploadInspection cfg w req s =
     (if isDuplicate s (submissionKey req) (now w) then (duplicateIgnored, s, [])
      else
        (let s1 = s\<lparr>recentSubmissions := (recentSubmissions s)(submissionKey req \<mapsto> now w)\<rparr>
         in case getDriveService cfg w s1 of
              (False, s2) \<Rightarrow>
                (json500 [(''error'', JStr ''Google Drive service not configured'')], s2,
                 [ConsoleError ''Google Drive Service is NULL'' None])
            | (True, s2) \<Rightarrow> processSubmission cfg w req s2))"

text \<open>The server handling a sequence of submissions, one after the other.\<close>

fun serveAll :: "config \<Rightarrow> (world \<times> request) list \<Rightarrow> server \<Rightarrow> server" where
  "serveAll cfg [] s = s"
| "serveAll cfg ((w, req) # rest) s = serveAll cfg rest (fst (snd (uploadInspection cfg w req s)))"

section \<open>GET /api/dashboard-stats\<close>

record query =
  month :: field
  year :: field

text \<open>
  \<^verbatim>\<open>Array.prototype.sort\<close> and SQL's \<^verbatim>\<open>ORDER BY\<close>, as a stable insertion sort:
  \<open>le a b\<close> says that \<open>a\<close> may stand before \<open>b\<close>. An element is put before the first
  one it may stand before, so elements that compare equal keep their order.
\<close>

fun insertWith :: "('a \<Rightarrow> 'a \<Rightarrow> bool) \<Rightarrow> 'a \<Rightarrow> 'a list \<Rightarrow> 'a list" where
  "insertWith le x [] = [x]"
| "insertWith le x (y # ys) = (if le x y then x # y # ys else y # insertWith le x ys)"

definition sortWith :: "('a \<Rightarrow> 'a \<Rightarrow> bool) \<Rightarrow> 'a list \<Rightarrow> 'a list" where
  "sortWith le xs = foldr (insertWith le) xs []"

definition tsLessEq :: "pgTimestamp \<Rightarrow> pgTimestamp \<Rightarrow> bool" where
  "tsLessEq a b =
     (ts_year a < ts_year b \<or> ts_year a = ts_year b \<and>
       (ts_month a < ts_month b \<or> ts_month a = ts_month b \<and>
         (ts_day a < ts_day b \<or> ts_day a = ts_day b \<and> ts_millis a \<le> ts_millis b)))"

text \<open>
  The \<^verbatim>\<open>WHERE\<close> clause that the handler appends when both parameters are truthy:
  \<^verbatim>\<open>EXTRACT(MONTH FROM timestamp) = $1 AND EXTRACT(YEAR FROM timestamp) = $2\<close>.
  With no parameters the statement has no \<^verbatim>\<open>WHERE\<close> clause. A parameter that the store
  cannot read as a number makes the statement fail.
\<close>

definition whereClause :: "world \<Rightarrow> string list \<Rightarrow> error + (logrow \<Rightarrow> bool)" where
  "whereClause w params =
     (case params of
        [p1, p2] \<Rightarrow>
          (case (numeric w p1, numeric w p2) of
             (Some m, Some y) \<Rightarrow>
               Inr (\<lambda>r. of_int (ts_month (timestamp r)) = m \<and> of_int (ts_year (timestamp r)) = y)
           | _ \<Rightarrow> Inl (Error ''invalid input syntax for type numeric''))
      | _ \<Rightarrow> Inr (\<lambda>r. True))"

text \<open>\<^verbatim>\<open>SELECT * FROM inspection_logs [WHERE ...] ORDER BY timestamp DESC LIMIT 100\<close>\<close>

definition selectLogs :: "world \<Rightarrow> string list \<Rightarrow> error + logrow list" where
  "selectLogs w params =
     (if \<not> databaseUp w then Inl (Error ''connection failure'')
      else (case whereClause w params of
              Inl e \<Rightarrow> Inl e
            | Inr cond \<Rightarrow>
                Inr (take 100 (sortWith (\<lambda>a b. tsLessEq (timestamp b) (timestamp a))
                                 (filter cond (inspection_logs w))))))"

text \<open>\<^verbatim>\<open>SELECT COUNT(DISTINCT substation_name) FROM inspection_logs [WHERE ...]\<close>\<close>

definition countSubstations :: "world \<Rightarrow> string list \<Rightarrow> error + nat" where
  "countSubstations w params =
     (if \<not> databaseUp w then Inl (Error ''connection failure'')
      else (case whereClause w params of
              Inl e \<Rightarrow> Inl e
            | Inr cond \<Rightarrow>
                Inr (length (remdups (map substation_name (filter cond (inspection_logs w)))))))"

text \<open>The handler: the response and the process state it leaves.\<close>

definition dashboardStats :: "config \<Rightarrow> world \<Rightarrow> query \<Rightarrow> server \<Rightarrow> response \<times> server" where
  "dashboardStats cfg w q s =
     (case getDbClient cfg w s of
        (False, s') \<Rightarrow> (json [(''total'', JNum 0), (''recent'', JRows [])], s')
      | (True, s') \<Rightarrow>
          (let params = (if truthy (month q) \<and> truthy (year q)
                         then [str (month q), str (year q)] else [])
           in case selectLogs w params of
                Inl e \<Rightarrow> (json500 [(''error'', JStr ''Failed to fetch stats'')], s')
              | Inr rows \<Rightarrow>
                  (case countSubstations w params of
                     Inl e \<Rightarrow> (json500 [(''error'', JStr ''Failed to fetch stats'')], s')
                   | Inr countResult \<Rightarrow>
                       (json [(''total'', JNum (int countResult)), (''recent'', JRows rows)], s'))))"

text \<open>A property of a JSON object, \<open>None\<close> when the object has no such key.\<close>

definition property :: "response \<Rightarrow> string \<Rightarrow> jsonv option" where
  "property r k = map_of (payload r) k"

section \<open>Runs of the server\<close>

text \<open>The process states that the server can be in under a fixed configuration: it
  starts with no client and an empty map, and then initialises the database and serves
  requests, whatever the outside answers.\<close>

inductive reachable :: "config \<Rightarrow> server \<Rightarrow> bool" for cfg :: config where
  start: "reachable cfg initial"
| boot: "reachable cfg s \<Longrightarrow> reachable cfg (initDb cfg w s)"
| upload: "reachable cfg s \<Longrightarrow> reachable cfg (fst (snd (uploadInspection cfg w req s)))"
| dashboard: "reachable cfg s \<Longrightarrow> reachable cfg (snd (dashboardStats cfg w q s))"

section \<open>The selection page: substations by distance\<close>

text \<open>
  The component \<^verbatim>\<open>SelectionPage\<close> that ranks the catalog by haversine distance.
  JavaScript numbers are modelled as real numbers: the arithmetic is exact, and rounding,
  infinities and NaN are not modelled. A catalog entry carries the optional
  \<^verbatim>\<open>distance\<close> that the page adds (\<open>None\<close> is \<^verbatim>\<open>undefined\<close>); the field \<^verbatim>\<open>id\<close> is \<open>sid\<close>
  here.
\<close>

record substation =
  sid :: string
  name :: string
  lat :: real
  lng :: real
  distance :: "real option"

text \<open>The static catalog of \<^verbatim>\<open>constants.ts\<close>; the Thai names are in UTF-8.\<close>

definition SUBSTATIONS :: "substation list" where
  "SUBSTATIONS =
     [
      \<lparr>sid = ''sam-chuk'',
       name =
          [CHR 0xE0, CHR 0xB8, CHR 0xAA, CHR 0xE0, CHR 0xB8, CHR 0xB2, CHR 0xE0, CHR
           0xB8, CHR 0xA1, CHR 0xE0, CHR 0xB8, CHR 0x8A, CHR 0xE0, CHR 0xB8, CHR
           0xB8, CHR 0xE0, CHR 0xB8, CHR 0x81],
       lat = 14.755, lng = 100.095, distance = None\<rparr>,
      \<lparr>sid = ''si-prachan'',
       name =
          [CHR 0xE0, CHR 0xB8, CHR 0xA8, CHR 0xE0, CHR 0xB8, CHR 0xA3, CHR 0xE0, CHR
           0xB8, CHR 0xB5, CHR 0xE0, CHR 0xB8, CHR 0x9B, CHR 0xE0, CHR 0xB8, CHR
           0xA3, CHR 0xE0, CHR 0xB8, CHR 0xB0, CHR 0xE0, CHR 0xB8, CHR 0x88, CHR
           0xE0, CHR 0xB8, CHR 0xB1, CHR 0xE0, CHR 0xB8, CHR 0x99, CHR 0xE0, CHR
           0xB8, CHR 0x95, CHR 0xE0, CHR 0xB9, CHR 0x8C],
       lat = 14.625, lng = 100.142, distance = None\<rparr>,
      \<lparr>sid = ''dan-chang'',
       name =
          [CHR 0xE0, CHR 0xB8, CHR 0x94, CHR 0xE0, CHR 0xB9, CHR 0x88, CHR 0xE0, CHR
           0xB8, CHR 0xB2, CHR 0xE0, CHR 0xB8, CHR 0x99, CHR 0xE0, CHR 0xB8, CHR
           0x8A, CHR 0xE0, CHR 0xB9, CHR 0x89, CHR 0xE0, CHR 0xB8, CHR 0xB2, CHR
           0xE0, CHR 0xB8, CHR 0x87],
       lat = 14.838, lng = 99.695, distance = None\<rparr>,
      \<lparr>sid = ''doem-bang'',
       name =
          [CHR 0xE0, CHR 0xB9, CHR 0x80, CHR 0xE0, CHR 0xB8, CHR 0x94, CHR 0xE0, CHR
           0xB8, CHR 0xB4, CHR 0xE0, CHR 0xB8, CHR 0xA1, CHR 0xE0, CHR 0xB8, CHR
           0x9A, CHR 0xE0, CHR 0xB8, CHR 0xB2, CHR 0xE0, CHR 0xB8, CHR 0x87, CHR
           0xE0, CHR 0xB8, CHR 0x99, CHR 0xE0, CHR 0xB8, CHR 0xB2, CHR 0xE0, CHR
           0xB8, CHR 0x87, CHR 0xE0, CHR 0xB8, CHR 0x9A, CHR 0xE0, CHR 0xB8, CHR
           0xA7, CHR 0xE0, CHR 0xB8, CHR 0x8A],
       lat = 14.855, lng = 100.045, distance = None\<rparr>,
      \<lparr>sid = ''suphan-buri-1'',
       name =
          [CHR 0xE0, CHR 0xB8, CHR 0xAA, CHR 0xE0, CHR 0xB8, CHR 0xB8, CHR 0xE0, CHR
           0xB8, CHR 0x9E, CHR 0xE0, CHR 0xB8, CHR 0xA3, CHR 0xE0, CHR 0xB8, CHR
           0xA3, CHR 0xE0, CHR 0xB8, CHR 0x93, CHR 0xE0, CHR 0xB8, CHR 0x9A, CHR
           0xE0, CHR 0xB8, CHR 0xB8, CHR 0xE0, CHR 0xB8, CHR 0xA3, CHR 0xE0, CHR
           0xB8, CHR 0xB5, CHR '' '', CHR ''1''],
       lat = 14.475, lng = 100.122, distance = None\<rparr>,
      \<lparr>sid = ''suphan-buri-2'',
       name =
          [CHR 0xE0, CHR 0xB8, CHR 0xAA, CHR 0xE0, CHR 0xB8, CHR 0xB8, CHR 0xE0, CHR
           0xB8, CHR 0x9E, CHR 0xE0, CHR 0xB8, CHR 0xA3, CHR 0xE0, CHR 0xB8, CHR
           0xA3, CHR 0xE0, CHR 0xB8, CHR 0x93, CHR 0xE0, CHR 0xB8, CHR 0x9A, CHR
           0xE0, CHR 0xB8, CHR 0xB8, CHR 0xE0, CHR 0xB8, CHR 0xA3, CHR 0xE0, CHR
           0xB8, CHR 0xB5, CHR '' '', CHR ''2''],
       lat = 14.455, lng = 100.105, distance = None\<rparr>
     ]"

text \<open>\<^verbatim>\<open>Math.atan2(y, x)\<close>: the angle of the point \<open>(x, y)\<close>, in \<open>(-\<pi>, \<pi>]\<close>.\<close>

definition atan2 :: "real \<Rightarrow> real \<Rightarrow> real" where
  "atan2 y x =
     (if 0 < x then arctan (y / x)
      else if x < 0 then (if 0 \<le> y then arctan (y / x) + pi else arctan (y / x) - pi)
      else if 0 < y then pi / 2
      else if y < 0 then - (pi / 2)
      else 0)"

text \<open>The haversine formula, in kilometres.\<close>

definition calculateDistance :: "real \<Rightarrow> real \<Rightarrow> real \<Rightarrow> real \<Rightarrow> real" where
  "calculateDistance lat1 lon1 lat2 lon2 =
     (let R = 6371;
          dLat = (lat2 - lat1) * pi / 180;
          dLon = (lon2 - lon1) * pi / 180;
          a = sin (dLat / 2) * sin (dLat / 2) +
              cos (lat1 * pi / 180) * cos (lat2 * pi / 180) *
              sin (dLon / 2) * sin (dLon / 2);
          c = 2 * atan2 (sqrt a) (sqrt (1 - a))
      in R * c)"

text \<open>The state of the page: \<^verbatim>\<open>sortedSubstations\<close> starts as the catalog, without
  distances.\<close>

record selection =
  sortedSubstations :: "substation list"
  loading :: bool
  nearestSub :: "substation option"

definition initialSelection :: "substation list \<Rightarrow> selection" where
  "initialSelection catalog =
     \<lparr>sortedSubstations = catalog, loading = True, nearestSub = None\<rparr>"

definition withDistance :: "real \<Rightarrow> real \<Rightarrow> substation list \<Rightarrow> substation list" where
  "withDistance latitude longitude catalog =
     map (\<lambda>sub. sub\<lparr>distance := Some (calculateDistance latitude longitude (lat sub) (lng sub))\<rparr>)
       catalog"

text \<open>\<^verbatim>\<open>a.distance || 0\<close>: a missing distance counts as 0.\<close>

definition distanceOr0 :: "substation \<Rightarrow> real" where
  "distanceOr0 a = (case distance a of None \<Rightarrow> 0 | Some d \<Rightarrow> d)"

text \<open>The comparator of the sort: \<^verbatim>\<open>(a.distance || 0) - (b.distance || 0)\<close>; \<open>a\<close> may
  stand before \<open>b\<close> when it is not positive.\<close>

definition compareDistance :: "substation \<Rightarrow> substation \<Rightarrow> real" where
  "compareDistance a b = distanceOr0 a - distanceOr0 b"

definition sortedByDistance :: "real \<Rightarrow> real \<Rightarrow> substation list \<Rightarrow> substation list" where
  "sortedByDistance latitude longitude catalog =
     sortWith (\<lambda>a b. compareDistance a b \<le> 0) (withDistance latitude longitude catalog)"

text \<open>
  The success callback of the geolocation request, for a device at
  \<open>(latitude, longitude)\<close>: the state it leaves and the exception that escapes it, if any.
  The test \<^verbatim>\<open>sorted[0].distance && sorted[0].distance <= 2\<close> is a truthiness test first:
  a distance that is 0 fails it. With an empty catalog \<^verbatim>\<open>sorted[0]\<close> is undefined and
  reading its distance throws, after the list has been stored and before \<^verbatim>\<open>loading\<close>
  is cleared.
\<close>

definition onPosition ::
  "real \<Rightarrow> real \<Rightarrow> substation list \<Rightarrow> selection \<Rightarrow> selection \<times> error option" where
  "onPosition latitude longitude catalog st =
     (let sorted = sortedByDistance latitude longitude catalog;
          st1 = st\<lparr>sortedSubstations := sorted\<rparr>
      in case sorted of
           [] \<Rightarrow> (st1, Some (Error ''Cannot read properties of undefined''))
         | nearest # rest \<Rightarrow>
             (if (case distance nearest of None \<Rightarrow> False | Some d \<Rightarrow> d \<noteq> 0 \<and> d \<le> 2)
              then (st1\<lparr>nearestSub := Some nearest, loading := False\<rparr>, None)
              else (st1\<lparr>loading := False\<rparr>, None)))"

text \<open>The error callback: geolocation is denied or unavailable.\<close>

definition onGeolocationError :: "selection \<Rightarrow> selection" where
  "onGeolocationError st = st\<lparr>loading := False\<rparr>"

text \<open>What the page derives from its state at every render.\<close>

definition nearbySubstations :: "selection \<Rightarrow> substation list" where
  "nearbySubstations st =
     filter (\<lambda>sub. case distance sub of None \<Rightarrow> False | Some d \<Rightarrow> d \<le> 10) (sortedSubstations st)"

definition displayNearby :: "selection \<Rightarrow> substation list" where
  "displayNearby st =
     (if length (nearbySubstations st) > 0 then nearbySubstations st
      else take 3 (sortedSubstations st))"

definition otherSubstations :: "selection \<Rightarrow> substation list" where
  "otherSubstations st =
     filter (\<lambda>sub. find (\<lambda>n. sid n = sid sub) (displayNearby st) = None) (sortedSubstations st)"

section \<open>Example inputs\<close>

text \<open>A configuration with a database and a refresh token, the same without the
  database, a world in which every outside call succeeds at clock time \<open>t\<close>, and a
  submission of one photograph by worker 123456 for the substation Sam Chuk.\<close>

definition exampleConfig :: config where
  "exampleConfig =
     \<lparr>DATABASE_URL = Some ''postgres://inspection'', GOOGLE_REFRESH_TOKEN = Some ''token'',
      GOOGLE_DRIVE_SERVICE_ACCOUNT_JSON = None, GOOGLE_DRIVE_PARENT_FOLDER_ID = None,
      GOOGLE_SHEET_ID = None\<rparr>"

definition noDatabaseConfig :: config where
  "noDatabaseConfig = exampleConfig\<lparr>DATABASE_URL := None\<rparr>"

definition exampleWorld :: "int \<Rightarrow> world" where
  "exampleWorld t =
     \<lparr>now = t, clientCtor = None, credentials = True, dateStr = ''030269'',
      formattedDate = ''3/2/2569'', formattedTime = ''10:00:00'',
      listMain = Inr (Some [''main1'']), createMain = Inr ''main2'',
      listDaily = Inr (Some []), createDaily = Inr ''day1'',
      uploadReply = (\<lambda>i. None), insertReply = None, appendReply = None,
      databaseUp = True, inspection_logs = [],
      numeric = (\<lambda>p. if p = ''2'' then Some 2 else if p = ''2026'' then Some 2026 else None)\<rparr>"

definition exampleRequest :: request where
  "exampleRequest =
     \<lparr>body = \<lparr>employeeId = Some ''123456'', substationName = Some ''Sam Chuk'',
              lat = Some ''14.755'', lng = Some ''100.095'', timestamp = None\<rparr>,
      files = Some [\<lparr>originalname = ''building_1_1000_030269.jpg'',
                     mimetype = ''image/jpeg'', buffer = ''''\<rparr>]\<rparr>"

text \<open>A log row of 3 February 2026 and one of 30 January 2026.\<close>

definition februaryRow :: logrow where
  "februaryRow =
     \<lparr>row_id = 2, employee_id = ''123456'', substation_name = ''Sam Chuk'',
      timestamp = \<lparr>ts_year = 2026, ts_month = 2, ts_day = 3, ts_millis = 36000000\<rparr>,
      gps_lat = Some 14.755, gps_lng = Some 100.095, folder_id = Some ''day1'',
      status = ''completed''\<rparr>"

definition januaryRow :: logrow where
  "januaryRow =
     \<lparr>row_id = 1, employee_id = ''123456'', substation_name = ''Sam Chuk'',
      timestamp = \<lparr>ts_year = 2026, ts_month = 1, ts_day = 30, ts_millis = 36000000\<rparr>,
      gps_lat = Some 14.755, gps_lng = Some 100.095, folder_id = Some ''day0'',
      status = ''completed''\<rparr>"

text \<open>The same submission by another worker.\<close>

definition otherRequest :: request where
  "otherRequest = exampleRequest\<lparr>body := (body exampleRequest)\<lparr>employeeId := Some ''654321''\<rparr>\<rparr>"

section \<open>The insertion sort\<close>

lemma mset_insertWith: "mset (insertWith le x xs) = add_mset x (mset xs)"
  by (induction xs) simp_all

lemma mset_sortWith: "mset (sortWith le xs) = mset xs"
  by (induction xs) (simp_all add: sortWith_def mset_insertWith)

lemma set_sortWith: "set (sortWith le xs) = set xs"
  using mset_sortWith [of le xs] by (metis set_mset_mset)


lemma sorted_insertWith:
  assumes total: "\<And>a b. le a b \<or> le b a"
    and trans: "\<And>a b c. le a b \<Longrightarrow> le b c \<Longrightarrow> le a c"
  shows "sorted_wrt le xs \<Longrightarrow> sorted_wrt le (insertWith le x xs)"
proof (induction xs)
  case Nil
  then show ?case by simp
next
  case (Cons y ys)
  show ?case
  proof (cases "le x y")
    case True
    then have "\<forall>z \<in> set (y # ys). le x z" using Cons.prems trans by auto
    with True Cons.prems show ?thesis by simp
  next
    case False
    then have "le y x" using total by blast
    moreover have "set (insertWith le x ys) = insert x (set ys)"
      using mset_insertWith [of le x ys] by (metis set_mset_add_mset_insert set_mset_mset)
    ultimately show ?thesis using False Cons by simp
  qed
qed

lemma sorted_sortWith:
  assumes total: "\<And>a b. le a b \<or> le b a"
    and trans: "\<And>a b c. le a b \<Longrightarrow> le b c \<Longrightarrow> le a c"
  shows "sorted_wrt le (sortWith le xs)"
proof (induction xs)
  case Nil
  then show ?case by (simp add: sortWith_def)
next
  case (Cons x xs)
  have "sortWith le (x # xs) = insertWith le x (sortWith le xs)" by (simp add: sortWith_def)
  then show ?case using sorted_insertWith [of le, OF total trans Cons.IH] by simp
qed

section \<open>The deduplication map under the upload handler\<close>

text \<open>Only the handler's first lines touch the map; the lazily built clients and the
  logging sinks keep it.\<close>

lemma getDriveService_map [simp]:
  "recentSubmissions (snd (getDriveService cfg w s)) = recentSubmissions s"
  by (simp add: getDriveService_def)

lemma getSheetsService_map [simp]:
  "recentSubmissions (snd (getSheetsService cfg w s)) = recentSubmissions s"
  by (simp add: getSheetsService_def)

lemma getDbClient_map [simp]:
  "recentSubmissions (snd (getDbClient cfg w s)) = recentSubmissions s"
  by (simp add: getDbClient_def split: option.splits)

lemma logToDatabase_map [simp]:
  "recentSubmissions (snd (logToDatabase cfg w b d s)) = recentSubmissions s"
proof -
  obtain c s' where g: "getDbClient cfg w s = (c, s')" by (cases "getDbClient cfg w s")
  then have "recentSubmissions s' = recentSubmissions s"
    using getDbClient_map [of cfg w s] by simp
  with g show ?thesis by (cases c) (simp_all add: logToDatabase_def)
qed

lemma logToSheets_map [simp]:
  "recentSubmissions (snd (logToSheets cfg w b d s)) = recentSubmissions s"
proof -
  obtain c s' where g: "getSheetsService cfg w s = (c, s')" by (cases "getSheetsService cfg w s")
  then have "recentSubmissions s' = recentSubmissions s"
    using getSheetsService_map [of cfg w s] by simp
  with g show ?thesis by (simp add: logToSheets_def Let_def)
qed

lemma processSubmission_map [simp]:
  "recentSubmissions (fst (snd (processSubmission cfg w req s))) = recentSubmissions s"
proof (cases "storeEvidence cfg w req")
  case (Pair cs r)
  show ?thesis
  proof (cases r)
    case (Inl e)
    with Pair show ?thesis by (simp add: processSubmission_def)
  next
    case (Inr d)
    obtain cdb s1 where a: "logToDatabase cfg w (body req) d s = (cdb, s1)"
      by (cases "logToDatabase cfg w (body req) d s")
    obtain csh s2 where b: "logToSheets cfg w (body req) d s1 = (csh, s2)"
      by (cases "logToSheets cfg w (body req) d s1")
    have "recentSubmissions s1 = recentSubmissions s"
      using logToDatabase_map [of cfg w "body req" d s] a by simp
    moreover have "recentSubmissions s2 = recentSubmissions s1"
      using logToSheets_map [of cfg w "body req" d s1] b by simp
    ultimately show ?thesis using Pair Inr a b by (simp add: processSubmission_def)
  qed
qed

lemma processSubmission_not_duplicate:
  "fst (processSubmission cfg w req s) \<noteq> duplicateIgnored"
  by (simp add: processSubmission_def duplicateIgnored_def json_def json500_def
      split: prod.splits sum.splits)

lemma uploadInspection_duplicate:
  "isDuplicate s (submissionKey req) (now w) \<Longrightarrow>
   uploadInspection cfg w req s = (duplicateIgnored, s, [])"
  by (simp add: uploadInspection_def)

lemma uploadInspection_response:
  "fst (uploadInspection cfg w req s) = duplicateIgnored \<longleftrightarrow>
   isDuplicate s (submissionKey req) (now w)"
  using processSubmission_not_duplicate
  by (auto simp add: uploadInspection_def Let_def duplicateIgnored_def json_def json500_def
      split: prod.splits bool.splits)

lemma uploadInspection_map:
  "recentSubmissions (fst (snd (uploadInspection cfg w req s))) =
     (if isDuplicate s (submissionKey req) (now w) then recentSubmissions s
      else (recentSubmissions s)(submissionKey req \<mapsto> now w))"
proof (cases "isDuplicate s (submissionKey req) (now w)")
  case True
  then show ?thesis by (simp add: uploadInspection_def)
next
  case False
  let ?s1 = "s\<lparr>recentSubmissions := (recentSubmissions s)(submissionKey req \<mapsto> now w)\<rparr>"
  obtain d s2 where g: "getDriveService cfg w ?s1 = (d, s2)"
    by (cases "getDriveService cfg w ?s1")
  have m: "recentSubmissions s2 = recentSubmissions ?s1"
    using getDriveService_map [of cfg w ?s1] g by simp
  show ?thesis
  proof (cases d)
    case True
    with False g m show ?thesis
      using processSubmission_map [of cfg w req s2]
      by (simp add: uploadInspection_def Let_def)
  next
    case False
    with \<open>\<not> isDuplicate s (submissionKey req) (now w)\<close> g m show ?thesis
      by (simp add: uploadInspection_def Let_def)
  qed
qed

lemma uploadInspection_other_key:
  "submissionKey req \<noteq> k \<Longrightarrow>
   recentSubmissions (fst (snd (uploadInspection cfg w req s))) k = recentSubmissions s k"
  by (simp add: uploadInspection_map)

lemma serveAll_other_keys:
  "\<forall>p \<in> set between. submissionKey (snd p) \<noteq> k \<Longrightarrow>
   recentSubmissions (serveAll cfg between s) k = recentSubmissions s k"
proof (induction between arbitrary: s)
  case Nil
  then show ?case by simp
next
  case (Cons p rest)
  obtain w req where p: "p = (w, req)" by (cases p)
  with Cons.prems have "submissionKey req \<noteq> k" by simp
  then have "recentSubmissions (fst (snd (uploadInspection cfg w req s))) k = recentSubmissions s k"
    by (rule uploadInspection_other_key)
  moreover from Cons.prems have "\<forall>p \<in> set rest. submissionKey (snd p) \<noteq> k" by simp
  ultimately show ?case using Cons.IH p by simp
qed

text \<open>The entry of a key, once there, stays and never decreases.\<close>

lemma uploadInspection_entry_grows:
  assumes "recentSubmissions s k = Some v"
  shows "\<exists>v'. recentSubmissions (fst (snd (uploadInspection cfg w req s))) k = Some v' \<and> v \<le> v'"
proof (cases "isDuplicate s (submissionKey req) (now w) \<or> submissionKey req \<noteq> k")
  case True
  then show ?thesis using assms by (auto simp add: uploadInspection_map)
next
  case False
  then have fresh: "\<not> isDuplicate s (submissionKey req) (now w)" and same: "submissionKey req = k"
    by blast+
  from fresh same assms have "\<not> now w - v < 10000" by (simp add: isDuplicate_def)
  moreover have "recentSubmissions (fst (snd (uploadInspection cfg w req s))) k = Some (now w)"
    using fresh same by (simp add: uploadInspection_map)
  ultimately show ?thesis by simp
qed

lemma serveAll_entry_grows:
  "recentSubmissions s k = Some v \<Longrightarrow>
   \<exists>v'. recentSubmissions (serveAll cfg between s) k = Some v' \<and> v \<le> v'"
proof (induction between arbitrary: s v)
  case Nil
  then show ?case by simp
next
  case (Cons p rest)
  obtain w req where p: "p = (w, req)" by (cases p)
  from uploadInspection_entry_grows [OF Cons.prems, of cfg w req]
  obtain u where u: "recentSubmissions (fst (snd (uploadInspection cfg w req s))) k = Some u"
    and vu: "v \<le> u" by blast
  from Cons.IH [OF u] obtain v'
    where "recentSubmissions (serveAll cfg rest (fst (snd (uploadInspection cfg w req s)))) k = Some v'"
      and "u \<le> v'" by blast
  with vu p show ?case by auto
qed

section \<open>The lazily built clients under the handlers\<close>

text \<open>Each lazily built client touches its own variable only.\<close>

lemma getDriveService_frame:
  "dbClient (snd (getDriveService cfg w s)) = dbClient s"
  "sheets (snd (getDriveService cfg w s)) = sheets s"
  "fst (getDriveService cfg w s) = (drive s \<or> getGoogleAuth cfg w)"
  by (simp_all add: getDriveService_def)

lemma getDbClient_frame:
  "drive (snd (getDbClient cfg w s)) = drive s"
  "sheets (snd (getDbClient cfg w s)) = sheets s"
  "fst (getDbClient cfg w s) = (dbClient s \<or> truthy (DATABASE_URL cfg) \<and> clientCtor w = None)"
  by (auto simp add: getDbClient_def split: option.splits)

lemma getSheetsService_frame:
  "dbClient (snd (getSheetsService cfg w s)) = dbClient s"
  "drive (snd (getSheetsService cfg w s)) = drive s"
  "fst (getSheetsService cfg w s) = (sheets s \<or> getGoogleAuth cfg w)"
  by (simp_all add: getSheetsService_def)

lemma getDbClient_needs_url:
  "dbClient (snd (getDbClient cfg w s)) \<Longrightarrow> dbClient s \<or> truthy (DATABASE_URL cfg)"
  by (auto simp add: getDbClient_def split: if_splits option.splits)

lemma getDbClient_absent:
  "\<not> dbClient s \<Longrightarrow> \<not> truthy (DATABASE_URL cfg) \<Longrightarrow> getDbClient cfg w s = (False, s)"
  by (simp add: getDbClient_def)

lemma logToDatabase_state: "snd (logToDatabase cfg w b d s) = snd (getDbClient cfg w s)"
  by (cases "getDbClient cfg w s") (simp add: logToDatabase_def split: bool.splits)

lemma logToSheets_state: "snd (logToSheets cfg w b d s) = snd (getSheetsService cfg w s)"
  by (cases "getSheetsService cfg w s") (simp add: logToSheets_def Let_def)

lemma processSubmission_state:
  "fst (snd (processSubmission cfg w req s)) = s \<or>
   fst (snd (processSubmission cfg w req s)) = snd (getSheetsService cfg w (snd (getDbClient cfg w s)))"
proof (cases "storeEvidence cfg w req")
  case (Pair cs r)
  show ?thesis
  proof (cases r)
    case (Inl e)
    with Pair show ?thesis by (simp add: processSubmission_def)
  next
    case (Inr d)
    obtain cdb s1 where a: "logToDatabase cfg w (body req) d s = (cdb, s1)"
      by (cases "logToDatabase cfg w (body req) d s")
    obtain csh s2 where b: "logToSheets cfg w (body req) d s1 = (csh, s2)"
      by (cases "logToSheets cfg w (body req) d s1")
    have "s1 = snd (getDbClient cfg w s)"
      using logToDatabase_state [of cfg w "body req" d s] a by simp
    moreover have "s2 = snd (getSheetsService cfg w s1)"
      using logToSheets_state [of cfg w "body req" d s1] b by simp
    ultimately show ?thesis using Pair Inr a b by (simp add: processSubmission_def)
  qed
qed

lemma processSubmission_needs_url:
  assumes "dbClient (fst (snd (processSubmission cfg w req s)))"
  shows "dbClient s \<or> truthy (DATABASE_URL cfg)"
  using assms processSubmission_state [of cfg w req s] getDbClient_needs_url [of cfg w s]
  by (auto simp add: getSheetsService_frame)

lemma uploadInspection_needs_url:
  assumes "dbClient (fst (snd (uploadInspection cfg w req s)))"
  shows "dbClient s \<or> truthy (DATABASE_URL cfg)"
proof (cases "isDuplicate s (submissionKey req) (now w)")
  case True
  with assms show ?thesis by (simp add: uploadInspection_def)
next
  case False
  let ?s1 = "s\<lparr>recentSubmissions := (recentSubmissions s)(submissionKey req \<mapsto> now w)\<rparr>"
  obtain d s2 where g: "getDriveService cfg w ?s1 = (d, s2)"
    by (cases "getDriveService cfg w ?s1")
  have m: "dbClient s2 = dbClient s"
    using getDriveService_frame(1) [of cfg w ?s1] g by simp
  show ?thesis
  proof (cases d)
    case True
    with False g assms have "dbClient (fst (snd (processSubmission cfg w req s2)))"
      by (simp add: uploadInspection_def Let_def)
    then show ?thesis using processSubmission_needs_url [of cfg w req s2] m by simp
  next
    case False
    with \<open>\<not> isDuplicate s (submissionKey req) (now w)\<close> g assms m show ?thesis
      by (simp add: uploadInspection_def Let_def)
  qed
qed

lemma dashboardStats_state: "snd (dashboardStats cfg w q s) = snd (getDbClient cfg w s)"
  by (cases "getDbClient cfg w s")
    (simp add: dashboardStats_def Let_def split: bool.splits sum.splits)

lemma reachable_needs_url: "reachable cfg s \<Longrightarrow> dbClient s \<Longrightarrow> truthy (DATABASE_URL cfg)"
proof (induction rule: reachable.induct)
  case start
  then show ?case by (simp add: initial_def)
next
  case (boot s w)
  then show ?case using getDbClient_needs_url [of cfg w s] by (auto simp add: initDb_def)
next
  case (upload s w req)
  then show ?case using uploadInspection_needs_url [of cfg w req s] by auto
next
  case (dashboard s w q)
  then show ?case using getDbClient_needs_url [of cfg w s] by (auto simp add: dashboardStats_state)
qed

section \<open>The example submission\<close>

lemma exampleRequest_first:
  "uploadInspection exampleConfig (exampleWorld t) exampleRequest initial =
     (json [(''success'', JBool True), (''folderId'', JStr ''day1'')],
      \<lparr>dbClient = True, drive = True, sheets = True,
         recentSubmissions = [''123456-Sam Chuk'' \<mapsto> t]\<rparr>,
      [FilesList (folderQuery ''Sam Chuk'' ''1IzXUWJfucyb47Dr32QSVIxBKmoMrWF6J''),
       FilesList (folderQuery ''Sam Chuk_030269'' ''main1''),
       FolderCreate (Some ''Sam Chuk_030269'') ''main1'',
       FileCreate ''building_1_1000_030269.jpg'' ''image/jpeg'' ''day1'',
       Insert [Some ''123456'', Some ''Sam Chuk'', Some ''14.755'', Some ''100.095'', Some ''day1''],
       Append ''1WpvuQnhXzufiBmSRSaEnkRFs9BJf5H4fIWZ0xoYC8iw''
         (rowData (exampleWorld t) (body exampleRequest) ''day1'')])"
  by (simp add: uploadInspection_def exampleConfig_def exampleWorld_def exampleRequest_def
      initial_def isDuplicate_def submissionKey_def str_def getDriveService_def getGoogleAuth_def
      truthy_def processSubmission_def storeEvidence_def resolveFolder_def orElse_def
      logToDatabase_def getDbClient_def logToSheets_def getSheetsService_def Let_def)

section \<open>The branches of the upload handler\<close>

lemma uploadInspection_forget:
  assumes "\<not> isDuplicate s (submissionKey req) (now w)"
  shows "uploadInspection cfg w req s =
         uploadInspection cfg w req
           (s\<lparr>recentSubmissions := (recentSubmissions s)(submissionKey req := None)\<rparr>)"
  using assms by (simp add: uploadInspection_def isDuplicate_def Let_def)

lemma logToDatabase_inserts:
  "fst (getDbClient cfg w s) \<Longrightarrow>
   Insert [Some (orElse (employeeId b) ''Unknown''), substationName b, body.lat b, body.lng b, Some d]
     \<in> set (fst (logToDatabase cfg w b d s))"
  by (cases "getDbClient cfg w s") (simp add: logToDatabase_def)

lemma processSubmission_calls:
  assumes "storeEvidence cfg w req = (cs, Inr d)"
  shows "snd (snd (processSubmission cfg w req s)) =
           cs @ fst (logToDatabase cfg w (body req) d s) @
           fst (logToSheets cfg w (body req) d (snd (getDbClient cfg w s)))"
    and "fst (processSubmission cfg w req s) =
           json [(''success'', JBool True), (''folderId'', JStr d)]"
  using assms logToDatabase_state [of cfg w "body req" d s]
  by (auto simp add: processSubmission_def split: prod.splits)


lemma uploadInspection_passed:
  assumes "\<not> isDuplicate s (submissionKey req) (now w)" and "drive s \<or> getGoogleAuth cfg w"
  shows "uploadInspection cfg w req s =
           processSubmission cfg w req
             (snd (getDriveService cfg w
                (s\<lparr>recentSubmissions := (recentSubmissions s)(submissionKey req \<mapsto> now w)\<rparr>)))"
  using assms by (auto simp add: uploadInspection_def Let_def getDriveService_def)


lemma failingUpload:
  "uploadInspection exampleConfig ((exampleWorld t)\<lparr>uploadReply := (\<lambda>i. Some (Error ''quota exceeded''))\<rparr>)
     exampleRequest initial =
     (json500 [(''error'', JStr ''quota exceeded'')],
      \<lparr>dbClient = False, drive = True, sheets = False,
         recentSubmissions = [''123456-Sam Chuk'' \<mapsto> t]\<rparr>,
      [FilesList (folderQuery ''Sam Chuk'' ''1IzXUWJfucyb47Dr32QSVIxBKmoMrWF6J''),
       FilesList (folderQuery ''Sam Chuk_030269'' ''main1''),
       FolderCreate (Some ''Sam Chuk_030269'') ''main1'',
       FileCreate ''building_1_1000_030269.jpg'' ''image/jpeg'' ''day1'',
       ConsoleError ''Upload error:'' (Some (Error ''quota exceeded''))])"
  by (simp add: uploadInspection_def exampleConfig_def exampleWorld_def exampleRequest_def
      initial_def isDuplicate_def submissionKey_def str_def getDriveService_def getGoogleAuth_def
      truthy_def processSubmission_def storeEvidence_def resolveFolder_def orElse_def Let_def)

section \<open>The logging sinks\<close>







section \<open>The dashboard queries\<close>

lemma tsLessEq_total: "tsLessEq a b \<or> tsLessEq b a"
  by (auto simp add: tsLessEq_def)

lemma tsLessEq_trans: "tsLessEq a b \<Longrightarrow> tsLessEq b c \<Longrightarrow> tsLessEq a c"
  by (auto simp add: tsLessEq_def)

text \<open>What the handler answers when the database client exists and the store answers:
  the rows of the month, newest first, at most 100 of them, and the number of distinct
  substations among all rows of the month.\<close>

lemma dashboardStats_filtered:
  assumes client: "dbClient s \<or> truthy (DATABASE_URL cfg) \<and> clientCtor w = None"
    and up: "databaseUp w"
    and given: "truthy (month q)" "truthy (year q)"
    and m: "numeric w (str (month q)) = Some m" and y: "numeric w (str (year q)) = Some y"
  shows "fst (dashboardStats cfg w q s) =
     json [(''total'', JNum (int (card (substation_name `
              {r \<in> set (inspection_logs w).
                 of_int (ts_month (timestamp r)) = m \<and> of_int (ts_year (timestamp r)) = y})))),
           (''recent'', JRows (take 100 (sortWith (\<lambda>a b. tsLessEq (timestamp b) (timestamp a))
              (filter (\<lambda>r. of_int (ts_month (timestamp r)) = m \<and> of_int (ts_year (timestamp r)) = y)
                 (inspection_logs w)))))]"
proof -
  obtain s' where g: "getDbClient cfg w s = (True, s')"
    using client getDbClient_frame(3) [of cfg w s] by (cases "getDbClient cfg w s") auto
  have "length (remdups (map substation_name (filter
          (\<lambda>r. of_int (ts_month (timestamp r)) = m \<and> of_int (ts_year (timestamp r)) = y)
          (inspection_logs w)))) =
        card (substation_name ` {r \<in> set (inspection_logs w).
                 of_int (ts_month (timestamp r)) = m \<and> of_int (ts_year (timestamp r)) = y})"
    by (simp add: length_remdups_card_conv)
  then show ?thesis
    using g up given m y
    by (simp add: dashboardStats_def selectLogs_def countSubstations_def whereClause_def)
qed

lemma dashboardStats_unfiltered:
  assumes client: "dbClient s \<or> truthy (DATABASE_URL cfg) \<and> clientCtor w = None"
    and up: "databaseUp w"
    and omitted: "month q = None" "year q = None"
  shows "fst (dashboardStats cfg w q s) =
     json [(''total'', JNum (int (card (substation_name ` set (inspection_logs w))))),
           (''recent'', JRows (take 100 (sortWith (\<lambda>a b. tsLessEq (timestamp b) (timestamp a))
                 (inspection_logs w))))]"
proof -
  obtain s' where g: "getDbClient cfg w s = (True, s')"
    using client getDbClient_frame(3) [of cfg w s] by (cases "getDbClient cfg w s") auto
  have "length (remdups (map substation_name (inspection_logs w))) =
        card (substation_name ` set (inspection_logs w))"
    by (simp add: length_remdups_card_conv)
  then show ?thesis
    using g up omitted
    by (simp add: dashboardStats_def selectLogs_def countSubstations_def whereClause_def truthy_def)
qed

lemma recent_newest_first:
  "sorted_wrt (\<lambda>a b. tsLessEq (timestamp b) (timestamp a))
     (take 100 (sortWith (\<lambda>a b. tsLessEq (timestamp b) (timestamp a)) rows))"
proof -
  have "sorted_wrt (\<lambda>a b. tsLessEq (timestamp b) (timestamp a))
     (sortWith (\<lambda>a b. tsLessEq (timestamp b) (timestamp a)) rows)"
    by (rule sorted_sortWith) (use tsLessEq_total tsLessEq_trans in blast)+
  then show ?thesis by (rule sorted_wrt_take)
qed

lemma dashboardStats_keys:
  "map fst (payload (fst (dashboardStats cfg w q s))) = [''total'', ''recent''] \<or>
   map fst (payload (fst (dashboardStats cfg w q s))) = [''error'']"
  by (cases "getDbClient cfg w s")
    (simp add: dashboardStats_def Let_def json_def json500_def split: bool.splits sum.splits)

section \<open>The haversine distance\<close>

lemma calculateDistance_self: "calculateDistance lat1 lon1 lat1 lon1 = 0"
  by (simp add: calculateDistance_def atan2_def)




text \<open>The radicands of the formula lie between 0 and 1, for all real arguments, so the
  square roots are those of non-negative numbers.\<close>

lemma radicand_range:
  fixes lat1 lon1 lat2 lon2 :: real
  defines "a \<equiv> sin ((lat2 - lat1) * pi / 180 / 2) * sin ((lat2 - lat1) * pi / 180 / 2) +
      cos (lat1 * pi / 180) * cos (lat2 * pi / 180) *
      sin ((lon2 - lon1) * pi / 180 / 2) * sin ((lon2 - lon1) * pi / 180 / 2)"
  shows "0 \<le> a \<and> a \<le> 1"
proof -
  define u where "u = (lat2 - lat1) * pi / 180 / 2"
  define v where "v = (lon2 - lon1) * pi / 180 / 2"
  define p1 where "p1 = lat1 * pi / 180"
  define p2 where "p2 = lat2 * pi / 180"
  define S where "S = sin u * sin u"
  define T where "T = sin v * sin v"
  define K where "K = cos p1 * cos p2"
  have a: "a = S + K * T"
    by (simp add: a_def S_def T_def K_def u_def v_def p1_def p2_def mult.assoc)
  have sq: "0 \<le> sin x * sin x \<and> sin x * sin x \<le> 1" for x :: real
    using abs_square_le_1 [of "sin x"] by (simp add: power2_eq_square)
  have S: "0 \<le> S" "S \<le> 1" using sq [of u] by (simp_all add: S_def)
  have T: "0 \<le> T" "T \<le> 1" using sq [of v] by (simp_all add: T_def)
  have "p2 - p1 = 2 * u" by (simp add: p1_def p2_def u_def field_simps)
  then have "cos (p2 - p1) = 1 - 2 * S"
    using cos_double_sin [of u] by (simp add: S_def power2_eq_square)
  moreover have "cos (p1 - p2) = cos (p2 - p1)"
    using cos_minus [of "p2 - p1"] by simp
  moreover have "K = (cos (p1 - p2) + cos (p1 + p2)) / 2"
    by (simp add: K_def cos_times_cos)
  ultimately have K: "K = (1 - 2 * S + cos (p1 + p2)) / 2" by simp
  have K2: "2 * K = 1 - 2 * S + cos (p1 + p2)" using K by simp
  have lo: "- S \<le> K" using K2 cos_ge_minus_one [of "p1 + p2"] by linarith
  have hi: "K \<le> 1 - S" using K2 cos_le_one [of "p1 + p2"] by linarith
  have "- S * T \<le> K * T" using lo T(1) by (rule mult_right_mono)
  moreover have "S * T \<le> S * 1" using T(2) S(1) by (rule mult_left_mono)
  ultimately have low: "0 \<le> S + K * T" by simp
  have "K * T \<le> (1 - S) * T" using hi T(1) by (rule mult_right_mono)
  moreover have "(1 - S) * T \<le> (1 - S) * 1" using T(2) S(2) by (intro mult_left_mono) simp_all
  ultimately have "K * T \<le> 1 - S" by simp
  with low a show ?thesis by linarith
qed

lemma atan2_nonneg: "0 \<le> y \<Longrightarrow> 0 \<le> atan2 y x"
proof -
  assume y: "0 \<le> y"
  have low: "- (pi / 2) < arctan (y / x)" by (rule arctan_lbound)
  have pos: "0 \<le> arctan (y / x)" if "0 < x"
    using y that arctan_le_iff [of 0 "y / x"] by simp
  have neg: "0 \<le> arctan (y / x) + pi" using low pi_gt_zero by linarith
  show ?thesis using y pos neg pi_gt_zero by (simp add: atan2_def)
qed

lemma calculateDistance_nonneg: "0 \<le> calculateDistance lat1 lon1 lat2 lon2"
proof -
  have "0 \<le> sqrt (sin ((lat2 - lat1) * pi / 180 / 2) * sin ((lat2 - lat1) * pi / 180 / 2) +
      cos (lat1 * pi / 180) * cos (lat2 * pi / 180) *
      sin ((lon2 - lon1) * pi / 180 / 2) * sin ((lon2 - lon1) * pi / 180 / 2))"
    using radicand_range [of lat2 lat1 lon2 lon1] by simp
  then show ?thesis
    unfolding calculateDistance_def Let_def by (intro mult_nonneg_nonneg atan2_nonneg) simp_all
qed

section \<open>The ranking of the catalog\<close>

lemma withDistance_entry:
  "e \<in> set (withDistance latitude longitude catalog) \<Longrightarrow>
   distance e = Some (calculateDistance latitude longitude (lat e) (lng e))"
  by (auto simp add: withDistance_def)

lemma set_sortedByDistance:
  "set (sortedByDistance latitude longitude catalog) = set (withDistance latitude longitude catalog)"
  by (simp add: sortedByDistance_def set_sortWith)

lemma sortedByDistance_entry:
  "e \<in> set (sortedByDistance latitude longitude catalog) \<Longrightarrow>
   distance e = Some (calculateDistance latitude longitude (lat e) (lng e))"
  by (simp add: set_sortedByDistance withDistance_entry)

lemma sortedByDistance_distanceOr0:
  "e \<in> set (sortedByDistance latitude longitude catalog) \<Longrightarrow>
   distanceOr0 e = calculateDistance latitude longitude (lat e) (lng e)"
  by (simp add: distanceOr0_def sortedByDistance_entry)

lemma sortedByDistance_ordered:
  "sorted_wrt (\<lambda>a b. distanceOr0 a \<le> distanceOr0 b) (sortedByDistance latitude longitude catalog)"
proof -
  have "sorted_wrt (\<lambda>a b. compareDistance a b \<le> 0)
      (sortWith (\<lambda>a b. compareDistance a b \<le> 0) (withDistance latitude longitude catalog))"
    by (rule sorted_sortWith) (auto simp add: compareDistance_def)
  then show ?thesis by (simp add: sortedByDistance_def compareDistance_def)
qed




section \<open>The nearby stations\<close>



text \<open>Without a position the page shows the first three entries of the catalog.\<close>

lemma displayNearby_without_position:
  "displayNearby (onGeolocationError (initialSelection SUBSTATIONS)) = take 3 SUBSTATIONS"
  by (simp add: displayNearby_def nearbySubstations_def onGeolocationError_def
      initialSelection_def SUBSTATIONS_def)

section \<open>The detected station\<close>

text \<open>The nearest station is flagged when its distance is at most 2 km and is not 0.\<close>

lemma onPosition_nearestSub:
  assumes "sortedByDistance latitude longitude catalog = nearest # rest"
  shows "nearestSub (fst (onPosition latitude longitude catalog st)) =
     (if calculateDistance latitude longitude (lat nearest) (lng nearest) \<noteq> 0 \<and>
         calculateDistance latitude longitude (lat nearest) (lng nearest) \<le> 2
      then Some nearest else nearestSub st)"
proof -
  have "nearest \<in> set (sortedByDistance latitude longitude catalog)" using assms by simp
  then have "distance nearest =
      Some (calculateDistance latitude longitude (lat nearest) (lng nearest))"
    by (rule sortedByDistance_entry)
  then show ?thesis using assms by (simp add: onPosition_def Let_def)
qed

lemma nearest_at_station:
  assumes member: "sub \<in> set catalog"
    and here: "lat sub = latitude" "lng sub = longitude"
  shows "\<exists>nearest rest. sortedByDistance latitude longitude catalog = nearest # rest
           \<and> distance nearest = Some 0"
proof -
  let ?r = "sortedByDistance latitude longitude catalog"
  let ?e = "sub\<lparr>distance := Some (calculateDistance latitude longitude (lat sub) (lng sub))\<rparr>"
  have e: "?e \<in> set ?r"
    using member by (auto simp add: set_sortedByDistance withDistance_def)
  have zero: "distanceOr0 ?e = 0"
    using here by (simp add: distanceOr0_def calculateDistance_self)
  from e obtain nearest rest where r: "?r = nearest # rest" by (cases ?r) auto
  have n: "nearest \<in> set ?r" using r by simp
  have "distanceOr0 nearest \<le> distanceOr0 ?e"
  proof (cases "?e = nearest")
    case True
    then show ?thesis by simp
  next
    case False
    then have "?e \<in> set rest" using e r by auto
    then show ?thesis using sortedByDistance_ordered [of latitude longitude catalog] r by auto
  qed
  moreover have "0 \<le> distanceOr0 nearest"
    using sortedByDistance_distanceOr0 [OF n] calculateDistance_nonneg by simp
  ultimately have "distanceOr0 nearest = 0" using zero by simp
  moreover have "distance nearest \<noteq> None" using sortedByDistance_entry [OF n] by simp
  ultimately have "distance nearest = Some 0"
    by (cases "distance nearest") (simp_all add: distanceOr0_def)
  with r show ?thesis by blast
qed

text \<open>With the initial state of the page, the nearest station is flagged exactly when
  its distance is positive and at most 2 km.\<close>

lemma detected_iff:
  assumes "sortedByDistance latitude longitude catalog = nearest # rest"
  shows "nearestSub (fst (onPosition latitude longitude catalog (initialSelection catalog))) =
           Some nearest \<longleftrightarrow>
         0 < calculateDistance latitude longitude (lat nearest) (lng nearest) \<and>
         calculateDistance latitude longitude (lat nearest) (lng nearest) \<le> 2"
  using onPosition_nearestSub [OF assms, of "initialSelection catalog"]
    calculateDistance_nonneg [of latitude longitude "lat nearest" "lng nearest"]
  by (auto simp add: initialSelection_def)

section \<open>Claims about the server\<close>

text \<open>
  Claim C1. A submission of worker \<open>W\<close> for substation \<open>S\<close> passes the deduplication check
  at clock time \<open>t\<close> (its response is not the duplicate notice). Whatever submissions are
  served in between, a later submission of \<open>W\<close> for \<open>S\<close> that arrives at \<open>t'\<close> with
  \<open>t' - t < 10000\<close> is answered with
  \<^verbatim>\<open>{success: true, message: "Duplicate request ignored"}\<close>, makes no call to the storage
  service, the relational store or the spreadsheet, and leaves the process state as it is.
\<close>

theorem duplicate_within_window_ignored:
  assumes first: "uploadInspection cfg w1 req1 s = (r1, s1, cs1)"
    and accepted: "r1 \<noteq> duplicateIgnored"
    and worker: "employeeId (body req2) = employeeId (body req1)"
    and substation: "substationName (body req2) = substationName (body req1)"
    and window: "now w2 - now w1 < 10000"
  shows "uploadInspection cfg w2 req2 (serveAll cfg between s1) =
           (duplicateIgnored, serveAll cfg between s1, [])"
proof -
  have key: "submissionKey req2 = submissionKey req1"
    using worker substation by (simp add: submissionKey_def)
  have nd: "\<not> isDuplicate s (submissionKey req1) (now w1)"
    using uploadInspection_response [of cfg w1 req1 s] first accepted by simp
  have "recentSubmissions s1 (submissionKey req1) = Some (now w1)"
    using uploadInspection_map [of cfg w1 req1 s] first nd by simp
  then obtain v where "recentSubmissions (serveAll cfg between s1) (submissionKey req1) = Some v"
    and "now w1 \<le> v"
    using serveAll_entry_grows [of s1 "submissionKey req1" "now w1" cfg between] by blast
  then have "isDuplicate (serveAll cfg between s1) (submissionKey req2) (now w2)"
    using key window by (simp add: isDuplicate_def)
  then show ?thesis by (rule uploadInspection_duplicate)
qed

theorem duplicate_within_window_ignored_witness:
  "fst (uploadInspection exampleConfig (exampleWorld 1000) exampleRequest initial) \<noteq> duplicateIgnored
   \<and> now (exampleWorld 10999) - now (exampleWorld 1000) < 10000
   \<and> uploadInspection exampleConfig (exampleWorld 10999) exampleRequest
        (serveAll exampleConfig [(exampleWorld 5000, otherRequest), (exampleWorld 6000, exampleRequest)]
           (fst (snd (uploadInspection exampleConfig (exampleWorld 1000) exampleRequest initial))))
      = (duplicateIgnored,
         serveAll exampleConfig [(exampleWorld 5000, otherRequest), (exampleWorld 6000, exampleRequest)]
           (fst (snd (uploadInspection exampleConfig (exampleWorld 1000) exampleRequest initial))),
         [])"
proof -
  let ?u = "uploadInspection exampleConfig (exampleWorld 1000) exampleRequest initial"
  have first: "?u = (fst ?u, fst (snd ?u), snd (snd ?u))" by simp
  have accepted: "fst ?u \<noteq> duplicateIgnored"
    by (simp add: exampleRequest_first duplicateIgnored_def json_def)
  have window: "now (exampleWorld 10999) - now (exampleWorld 1000) < 10000"
    by (simp add: exampleWorld_def)
  show ?thesis
    using duplicate_within_window_ignored [OF first accepted refl refl window] accepted window
    by blast
qed

text \<open>
  Claim C7. A submission of worker \<open>W\<close> for substation \<open>S\<close> passes the deduplication check
  at clock time \<open>t\<close>; submissions with other keys may follow. The next one for the same
  pair, at \<open>t + 10001\<close>, passes the check too: it is not answered with the duplicate
  notice, the map records its own time, and the handler treats it exactly as it would
  with no entry for the key, so the record it produces is its own: when the storage path
  succeeds with daily folder \<open>d\<close> and there is a database client, the response is
  \<^verbatim>\<open>{success: true, folderId: d}\<close> and a row with the fields of this submission and \<open>d\<close>
  is inserted.
\<close>

theorem resubmission_after_window_accepted:
  assumes first: "uploadInspection cfg w1 req1 s = (r1, s1, cs1)"
    and accepted: "r1 \<noteq> duplicateIgnored"
    and others: "\<forall>p \<in> set between. submissionKey (snd p) \<noteq> submissionKey req1"
    and later: "s2 = serveAll cfg between s1"
    and worker: "employeeId (body req2) = employeeId (body req1)"
    and substation: "substationName (body req2) = substationName (body req1)"
    and clock: "now w2 = now w1 + 10001"
  shows "fst (uploadInspection cfg w2 req2 s2) \<noteq> duplicateIgnored
     \<and> recentSubmissions (fst (snd (uploadInspection cfg w2 req2 s2))) (submissionKey req2)
         = Some (now w1 + 10001)
     \<and> uploadInspection cfg w2 req2 s2 =
         uploadInspection cfg w2 req2
           (s2\<lparr>recentSubmissions := (recentSubmissions s2)(submissionKey req2 := None)\<rparr>)
     \<and> (\<forall>cs d. (drive s2 \<or> getGoogleAuth cfg w2) \<and> storeEvidence cfg w2 req2 = (cs, Inr d)
           \<and> (dbClient s2 \<or> truthy (DATABASE_URL cfg) \<and> clientCtor w2 = None) \<longrightarrow>
         fst (uploadInspection cfg w2 req2 s2) =
           json [(''success'', JBool True), (''folderId'', JStr d)]
         \<and> Insert [Some (orElse (employeeId (body req2)) ''Unknown''), substationName (body req2),
                   body.lat (body req2), body.lng (body req2), Some d]
             \<in> set (snd (snd (uploadInspection cfg w2 req2 s2))))"
proof -
  have key: "submissionKey req2 = submissionKey req1"
    using worker substation by (simp add: submissionKey_def)
  have nd1: "\<not> isDuplicate s (submissionKey req1) (now w1)"
    using uploadInspection_response [of cfg w1 req1 s] first accepted by simp
  have "recentSubmissions s1 (submissionKey req1) = Some (now w1)"
    using uploadInspection_map [of cfg w1 req1 s] first nd1 by simp
  then have entry: "recentSubmissions s2 (submissionKey req1) = Some (now w1)"
    using serveAll_other_keys [OF others, of cfg s1] later by simp
  have nd2: "\<not> isDuplicate s2 (submissionKey req2) (now w2)"
    using entry key clock by (simp add: isDuplicate_def)
  have a: "fst (uploadInspection cfg w2 req2 s2) \<noteq> duplicateIgnored"
    using uploadInspection_response [of cfg w2 req2 s2] nd2 by simp
  have b: "recentSubmissions (fst (snd (uploadInspection cfg w2 req2 s2))) (submissionKey req2)
         = Some (now w1 + 10001)"
    using uploadInspection_map [of cfg w2 req2 s2] nd2 clock by simp
  have c: "uploadInspection cfg w2 req2 s2 =
         uploadInspection cfg w2 req2
           (s2\<lparr>recentSubmissions := (recentSubmissions s2)(submissionKey req2 := None)\<rparr>)"
    using nd2 by (rule uploadInspection_forget)
  have d: "fst (uploadInspection cfg w2 req2 s2) =
           json [(''success'', JBool True), (''folderId'', JStr d)]
         \<and> Insert [Some (orElse (employeeId (body req2)) ''Unknown''), substationName (body req2),
                   body.lat (body req2), body.lng (body req2), Some d]
             \<in> set (snd (snd (uploadInspection cfg w2 req2 s2)))"
    if dr: "drive s2 \<or> getGoogleAuth cfg w2" and st: "storeEvidence cfg w2 req2 = (cs, Inr d)"
      and db: "dbClient s2 \<or> truthy (DATABASE_URL cfg) \<and> clientCtor w2 = None" for cs d
  proof -
    let ?s3 = "snd (getDriveService cfg w2
        (s2\<lparr>recentSubmissions := (recentSubmissions s2)(submissionKey req2 \<mapsto> now w2)\<rparr>))"
    have u: "uploadInspection cfg w2 req2 s2 = processSubmission cfg w2 req2 ?s3"
      using nd2 dr by (rule uploadInspection_passed)
    have "dbClient ?s3 = dbClient s2" by (simp add: getDriveService_frame)
    then have "fst (getDbClient cfg w2 ?s3)" using db by (simp add: getDbClient_frame)
    then have "Insert [Some (orElse (employeeId (body req2)) ''Unknown''), substationName (body req2),
                   body.lat (body req2), body.lng (body req2), Some d]
       \<in> set (fst (logToDatabase cfg w2 (body req2) d ?s3))"
      by (rule logToDatabase_inserts)
    then show ?thesis using u processSubmission_calls [OF st, of ?s3] by simp
  qed
  from a b c d show ?thesis by blast
qed

theorem resubmission_after_window_accepted_witness:
  "fst (uploadInspection exampleConfig (exampleWorld 1000) exampleRequest initial) \<noteq> duplicateIgnored
   \<and> submissionKey otherRequest \<noteq> submissionKey exampleRequest
   \<and> now (exampleWorld 11001) = now (exampleWorld 1000) + 10001
   \<and> fst (uploadInspection exampleConfig (exampleWorld 11001) exampleRequest
        (serveAll exampleConfig [(exampleWorld 5000, otherRequest)]
          (fst (snd (uploadInspection exampleConfig (exampleWorld 1000) exampleRequest initial)))))
      = json [(''success'', JBool True), (''folderId'', JStr ''day1'')]
   \<and> recentSubmissions (fst (snd (uploadInspection exampleConfig (exampleWorld 11001) exampleRequest
        (serveAll exampleConfig [(exampleWorld 5000, otherRequest)]
          (fst (snd (uploadInspection exampleConfig (exampleWorld 1000) exampleRequest initial)))))))
        (submissionKey exampleRequest) = Some 11001
   \<and> Insert [Some ''123456'', Some ''Sam Chuk'', Some ''14.755'', Some ''100.095'', Some ''day1'']
        \<in> set (snd (snd (uploadInspection exampleConfig (exampleWorld 11001) exampleRequest
        (serveAll exampleConfig [(exampleWorld 5000, otherRequest)]
          (fst (snd (uploadInspection exampleConfig (exampleWorld 1000) exampleRequest initial)))))))"
proof -
  let ?u = "uploadInspection exampleConfig (exampleWorld 1000) exampleRequest initial"
  let ?s2 = "serveAll exampleConfig [(exampleWorld 5000, otherRequest)] (fst (snd ?u))"
  have first: "?u = (fst ?u, fst (snd ?u), snd (snd ?u))" by simp
  have accepted: "fst ?u \<noteq> duplicateIgnored"
    by (simp add: exampleRequest_first duplicateIgnored_def json_def)
  have other: "submissionKey otherRequest \<noteq> submissionKey exampleRequest"
    by (simp add: submissionKey_def otherRequest_def exampleRequest_def str_def)
  then have others: "\<forall>p \<in> set [(exampleWorld 5000, otherRequest)].
      submissionKey (snd p) \<noteq> submissionKey exampleRequest" by simp
  have clock: "now (exampleWorld 11001) = now (exampleWorld 1000) + 10001"
    by (simp add: exampleWorld_def)
  have store: "storeEvidence exampleConfig (exampleWorld 11001) exampleRequest =
      ([FilesList (folderQuery ''Sam Chuk'' ''1IzXUWJfucyb47Dr32QSVIxBKmoMrWF6J''),
        FilesList (folderQuery ''Sam Chuk_030269'' ''main1''),
        FolderCreate (Some ''Sam Chuk_030269'') ''main1'',
        FileCreate ''building_1_1000_030269.jpg'' ''image/jpeg'' ''day1''], Inr ''day1'')"
    by (simp add: storeEvidence_def exampleConfig_def exampleWorld_def exampleRequest_def
        resolveFolder_def orElse_def str_def Let_def)
  have cond: "(drive ?s2 \<or> getGoogleAuth exampleConfig (exampleWorld 11001))
      \<and> storeEvidence exampleConfig (exampleWorld 11001) exampleRequest =
      ([FilesList (folderQuery ''Sam Chuk'' ''1IzXUWJfucyb47Dr32QSVIxBKmoMrWF6J''),
        FilesList (folderQuery ''Sam Chuk_030269'' ''main1''),
        FolderCreate (Some ''Sam Chuk_030269'') ''main1'',
        FileCreate ''building_1_1000_030269.jpg'' ''image/jpeg'' ''day1''], Inr ''day1'')
      \<and> (dbClient ?s2 \<or> truthy (DATABASE_URL exampleConfig)
            \<and> clientCtor (exampleWorld 11001) = None)"
    using store by (simp add: getGoogleAuth_def exampleConfig_def truthy_def exampleWorld_def)
  have vals: "orElse (employeeId (body exampleRequest)) ''Unknown'' = ''123456''"
    "substationName (body exampleRequest) = Some ''Sam Chuk''"
    "body.lat (body exampleRequest) = Some ''14.755''"
    "body.lng (body exampleRequest) = Some ''100.095''"
    by (simp_all add: exampleRequest_def orElse_def)
  have n: "now (exampleWorld 1000) = 1000" by (simp add: exampleWorld_def)
  note again = resubmission_after_window_accepted [OF first accepted others refl refl refl clock]
  from again have "recentSubmissions (fst (snd (uploadInspection exampleConfig (exampleWorld 11001)
      exampleRequest ?s2))) (submissionKey exampleRequest)
      = Some (now (exampleWorld 1000) + 10001)"
    by blast
  then have "recentSubmissions (fst (snd (uploadInspection exampleConfig (exampleWorld 11001)
      exampleRequest ?s2))) (submissionKey exampleRequest) = Some 11001"
    unfolding n by simp
  moreover from again cond have "fst (uploadInspection exampleConfig (exampleWorld 11001) exampleRequest
        ?s2) = json [(''success'', JBool True), (''folderId'', JStr ''day1'')]
     \<and> Insert [Some (orElse (employeeId (body exampleRequest)) ''Unknown''),
          substationName (body exampleRequest), body.lat (body exampleRequest),
          body.lng (body exampleRequest), Some ''day1'']
        \<in> set (snd (snd (uploadInspection exampleConfig (exampleWorld 11001) exampleRequest ?s2)))"
    by blast
  ultimately show ?thesis using accepted other clock unfolding vals by blast
qed

text \<open>
  Claim C10. The map is updated before the storage path is entered and the update is not
  undone on failure: when a submission at clock time \<open>t\<close> is answered with HTTP 500, the
  map holds \<open>t\<close> for its key afterwards, and a retry for the same worker and substation at
  \<open>t'\<close> with \<open>t' - t < 10000\<close>, whatever was served in between, is answered with the
  duplicate notice and makes no call at all.
\<close>

theorem failed_upload_keeps_dedupe_entry:
  assumes first: "uploadInspection cfg w1 req1 s = (r1, s1, cs1)"
    and failed: "status r1 = 500"
    and worker: "employeeId (body req2) = employeeId (body req1)"
    and substation: "substationName (body req2) = substationName (body req1)"
    and window: "now w2 - now w1 < 10000"
  shows "recentSubmissions s1 (submissionKey req1) = Some (now w1)
     \<and> uploadInspection cfg w2 req2 (serveAll cfg between s1) =
         (duplicateIgnored, serveAll cfg between s1, [])"
proof -
  have key: "submissionKey req2 = submissionKey req1"
    using worker substation by (simp add: submissionKey_def)
  have "r1 \<noteq> duplicateIgnored"
    using failed by (auto simp add: duplicateIgnored_def json_def)
  then have nd: "\<not> isDuplicate s (submissionKey req1) (now w1)"
    using uploadInspection_response [of cfg w1 req1 s] first by simp
  have entry: "recentSubmissions s1 (submissionKey req1) = Some (now w1)"
    using uploadInspection_map [of cfg w1 req1 s] first nd by simp
  then obtain v where "recentSubmissions (serveAll cfg between s1) (submissionKey req1) = Some v"
    and "now w1 \<le> v"
    using serveAll_entry_grows [of s1 "submissionKey req1" "now w1" cfg between] by blast
  then have "isDuplicate (serveAll cfg between s1) (submissionKey req2) (now w2)"
    using key window by (simp add: isDuplicate_def)
  then have "uploadInspection cfg w2 req2 (serveAll cfg between s1) =
         (duplicateIgnored, serveAll cfg between s1, [])"
    by (rule uploadInspection_duplicate)
  with entry show ?thesis by simp
qed

theorem failed_upload_keeps_dedupe_entry_witness:
  "status (fst (uploadInspection exampleConfig
       ((exampleWorld 1000)\<lparr>uploadReply := (\<lambda>i. Some (Error ''quota exceeded''))\<rparr>)
       exampleRequest initial)) = 500
   \<and> now (exampleWorld 3000) - now ((exampleWorld 1000)\<lparr>uploadReply := (\<lambda>i. Some (Error ''quota exceeded''))\<rparr>) < 10000
   \<and> recentSubmissions (fst (snd (uploadInspection exampleConfig
       ((exampleWorld 1000)\<lparr>uploadReply := (\<lambda>i. Some (Error ''quota exceeded''))\<rparr>)
       exampleRequest initial))) ''123456-Sam Chuk'' = Some 1000
   \<and> uploadInspection exampleConfig (exampleWorld 3000) exampleRequest
       (fst (snd (uploadInspection exampleConfig
         ((exampleWorld 1000)\<lparr>uploadReply := (\<lambda>i. Some (Error ''quota exceeded''))\<rparr>)
         exampleRequest initial)))
     = (duplicateIgnored,
        \<lparr>dbClient = False, drive = True, sheets = False,
         recentSubmissions = [''123456-Sam Chuk'' \<mapsto> 1000]\<rparr>, [])"
proof -
  let ?w = "(exampleWorld 1000)\<lparr>uploadReply := (\<lambda>i. Some (Error ''quota exceeded''))\<rparr>"
  let ?u = "uploadInspection exampleConfig ?w exampleRequest initial"
  have first: "?u = (fst ?u, fst (snd ?u), snd (snd ?u))" by simp
  have failed: "status (fst ?u) = 500" by (simp add: failingUpload json500_def)
  have window: "now (exampleWorld 3000) - now ?w < 10000" by (simp add: exampleWorld_def)
  have key: "submissionKey exampleRequest = ''123456-Sam Chuk''"
    by (simp add: exampleRequest_def submissionKey_def str_def)
  have t: "now ?w = 1000" by (simp add: exampleWorld_def)
  from failed_upload_keeps_dedupe_entry [OF first failed refl refl window, of "[]"]
  show ?thesis using failed window unfolding key t by (simp add: failingUpload)
qed



text \<open>
  Claim C9. When \<^verbatim>\<open>DATABASE_URL\<close> is absent (or empty), in every state the server can
  reach the dashboard handler answers \<^verbatim>\<open>{total: 0, recent: []}\<close> with status 200, for
  every query and whatever the outside world answers, and leaves the state as it is.
\<close>

theorem dashboard_without_database:
  assumes run: "reachable cfg s"
    and absent: "\<not> truthy (DATABASE_URL cfg)"
  shows "dashboardStats cfg w q s = (json [(''total'', JNum 0), (''recent'', JRows [])], s)"
proof -
  have "\<not> dbClient s" using reachable_needs_url [OF run] absent by blast
  then have "getDbClient cfg w s = (False, s)" using absent by (rule getDbClient_absent)
  then show ?thesis by (simp add: dashboardStats_def)
qed


theorem dashboard_without_database_witness:
  "reachable noDatabaseConfig
     (fst (snd (uploadInspection noDatabaseConfig (exampleWorld 1000) exampleRequest initial)))
   \<and> \<not> truthy (DATABASE_URL noDatabaseConfig)
   \<and> dashboardStats noDatabaseConfig
        ((exampleWorld 5000)\<lparr>inspection_logs := [januaryRow, februaryRow]\<rparr>)
        \<lparr>month = Some ''2'', year = Some ''2026''\<rparr>
        (fst (snd (uploadInspection noDatabaseConfig (exampleWorld 1000) exampleRequest initial)))
      = (json [(''total'', JNum 0), (''recent'', JRows [])],
         fst (snd (uploadInspection noDatabaseConfig (exampleWorld 1000) exampleRequest initial)))"
proof -
  have run: "reachable noDatabaseConfig
     (fst (snd (uploadInspection noDatabaseConfig (exampleWorld 1000) exampleRequest initial)))"
    by (rule reachable.upload) (rule reachable.start)
  have absent: "\<not> truthy (DATABASE_URL noDatabaseConfig)"
    by (simp add: noDatabaseConfig_def truthy_def)
  from dashboard_without_database [OF run absent] run absent show ?thesis by blast
qed

text \<open>
  Claim C3, at an input where the code departs from it. The store holds a row of
  30 January 2026 and a row of 3 February 2026, and the query is \<open>month=2&year=2026\<close>. The
  handler answers with the February row only and with 1 as \<open>total\<close>, the number of
  distinct substations of the month; its response object has the keys \<open>total\<close> and
  \<open>recent\<close> and no \<open>totalSubmissions\<close>, here and for every other input, although the
  dashboard page reads \<^verbatim>\<open>stats.totalSubmissions\<close>.
\<close>

theorem dashboard_response_lacks_totalSubmissions:
  "dashboardStats exampleConfig ((exampleWorld 5000)\<lparr>inspection_logs := [januaryRow, februaryRow]\<rparr>)
      \<lparr>month = Some ''2'', year = Some ''2026''\<rparr> initial
     = (json [(''total'', JNum 1), (''recent'', JRows [februaryRow])], initial\<lparr>dbClient := True\<rparr>)
   \<and> property (fst (dashboardStats exampleConfig
        ((exampleWorld 5000)\<lparr>inspection_logs := [januaryRow, februaryRow]\<rparr>)
        \<lparr>month = Some ''2'', year = Some ''2026''\<rparr> initial)) ''totalSubmissions'' = None
   \<and> property (fst (dashboardStats cfg w q s)) ''totalSubmissions'' = None"
proof -
  have run: "dashboardStats exampleConfig
      ((exampleWorld 5000)\<lparr>inspection_logs := [januaryRow, februaryRow]\<rparr>)
      \<lparr>month = Some ''2'', year = Some ''2026''\<rparr> initial
     = (json [(''total'', JNum 1), (''recent'', JRows [februaryRow])], initial\<lparr>dbClient := True\<rparr>)"
    by (simp add: dashboardStats_def getDbClient_def exampleConfig_def exampleWorld_def initial_def
        truthy_def str_def selectLogs_def countSubstations_def whereClause_def januaryRow_def
        februaryRow_def sortWith_def)
  have none: "property (fst (dashboardStats cfg w q s)) ''totalSubmissions'' = None"
    using dashboardStats_keys [of cfg w q s]
    by (auto simp add: property_def map_of_eq_None_iff)
  from run none show ?thesis by (simp add: property_def json_def)
qed

section \<open>Claims about the selection page\<close>





text \<open>
  Claim C4, at an input where the code departs from it. The device stands exactly at the
  coordinates of the catalog's first station, (14.755, 100.095). The nearest entry of
  the ranking of the static catalog then has distance 0, which is within 2 km, and the
  success callback leaves \<^verbatim>\<open>nearestSub\<close> empty: no station is flagged as detected.
\<close>

theorem zero_distance_not_detected:
  "nearestSub (fst (onPosition 14.755 100.095 SUBSTATIONS (initialSelection SUBSTATIONS))) = None
   \<and> map distance (take 1 (sortedByDistance 14.755 100.095 SUBSTATIONS)) = [Some 0]"
proof -
  have "\<exists>sub \<in> set SUBSTATIONS. lat sub = 14.755 \<and> lng sub = 100.095"
    by (simp add: SUBSTATIONS_def)
  then obtain nearest rest
    where r: "sortedByDistance 14.755 100.095 SUBSTATIONS = nearest # rest"
      and d: "distance nearest = Some 0"
    using nearest_at_station [of _ SUBSTATIONS "14.755" "100.095"] by blast
  have "nearest \<in> set (sortedByDistance 14.755 100.095 SUBSTATIONS)" using r by simp
  then have "calculateDistance 14.755 100.095 (lat nearest) (lng nearest) = 0"
    using sortedByDistance_entry [of nearest "14.755" "100.095" SUBSTATIONS] d by simp
  then have "nearestSub (fst (onPosition 14.755 100.095 SUBSTATIONS (initialSelection SUBSTATIONS)))
      = None"
    using onPosition_nearestSub [OF r, of "initialSelection SUBSTATIONS"]
    by (simp add: initialSelection_def)
  then show ?thesis using r d by simp
qed

end
